theory Spec2Isabelle
  imports Complex_Main
begin

unbundle bit_operations_syntax

section \<open>The send, broadcast and CPFP flow of the ElectrumSV main window\<close>

text \<open>
  A shallow embedding of the transaction preparation and broadcast code of
  \<^verbatim>\<open>electrumsv/gui/qt/main_window.py\<close> (class \<^verbatim>\<open>ElectrumWindow\<close>): \<^verbatim>\<open>get_coins\<close>,
  \<^verbatim>\<open>do_update_fee\<close>, \<^verbatim>\<open>read_send_tab\<close>, \<^verbatim>\<open>do_send\<close>, \<^verbatim>\<open>sign_tx_with_password\<close>,
  \<^verbatim>\<open>broadcast_transaction\<close>, \<^verbatim>\<open>do_clear\<close> and \<^verbatim>\<open>cpfp\<close>.

  The window is a record of the attributes these methods read and write. Every method
  takes the window and returns the updated window. Message boxes, dialogs and log
  calls are appended, in program order, to the \<open>trace\<close> field, so that what the user
  gets to see (or does not get to see) is part of the result. Calls into the wallet
  engine, the network and the payee endpoint are fields of a record of collaborators:
  their code is not part of this file, and every theorem holds for all of them.
\<close>

subsection \<open>Data\<close>

type_synonym account_id = nat

text \<open>Exceptions that travel through the modelled code.\<close>

datatype exn = NotEnoughFunds | ExcessiveFee | UserCancelled | TypeError | Exception string

text \<open>
  The value of an \<^verbatim>\<open>XTxOutput\<close> is \<^verbatim>\<open>None\<close>, an integer number of satoshis, or the
  builtin \<^verbatim>\<open>all\<close>, which \<^verbatim>\<open>do_update_fee\<close> uses as the marker of a maximum send
  (\<^verbatim>\<open>amount = all if self.is_max else ...\<close>, then \<^verbatim>\<open>XTxOutput(amount, output_script)\<close>).
\<close>

datatype amount = Sat int | PyAll

record XTxOutput =
  tx_out_value :: "amount option"
  script_pubkey :: string

record UTXO =
  utxo_value :: int
  tx_hash :: string
  out_index :: nat
  address :: string

text \<open>
  A transaction as far as the window looks at it: each field is the value of the method
  of the same name (\<open>raw\<close> is \<^verbatim>\<open>str(tx)\<close>).
\<close>

record Transaction =
  txid :: string
  hash :: string
  is_complete :: bool
  estimated_size :: int
  output_value :: int
  get_fee :: int
  raw :: string

text \<open>
  A payment request at the moment it is used: whether it has expired, its outputs, and
  what its payee endpoint answers to \<^verbatim>\<open>send_payment(account, str(tx))\<close>: an exception,
  or the pair \<^verbatim>\<open>(ack_status, ack_msg)\<close>.
\<close>

record PaymentRequest =
  pr_id :: string
  has_expired :: bool
  pr_get_outputs :: "XTxOutput list"
  send_payment :: "account_id \<Rightarrow> string \<Rightarrow> exn + bool \<times> string"

record PayToEdit =
  get_errors :: "(nat \<times> string) list"
  get_outputs :: "bool \<Rightarrow> XTxOutput list"
  get_payee_script :: "string option"

record SimpleConfig =
  fee_per_kb :: int
  max_fee_rate :: int

text \<open>
  Modelled from the spec: the account's transaction store is not part of this file. The
  spec gives the interface \<^verbatim>\<open>set_transaction_state(hash, flags)\<close> ("update its state flags")
  and \<^verbatim>\<open>set_paid(request, txid)\<close> ("mark the request paid and record the transaction id
  against it"); the account is a record of three dictionaries, from transaction hash to
  state flags, from transaction hash to label, and from payment request to the id of the
  transaction that paid it. A transaction is tracked when it has an entry in the first.
\<close>

record AbstractAccount =
  tx_state :: "string \<rightharpoonup> int"
  tx_labels :: "string \<rightharpoonup> string"
  invoices_paid :: "string \<rightharpoonup> string"

definition have_transaction :: "AbstractAccount \<Rightarrow> string \<Rightarrow> bool" where
  "have_transaction a h = (tx_state a h \<noteq> None)"

definition set_transaction_state :: "string \<Rightarrow> int \<Rightarrow> AbstractAccount \<Rightarrow> AbstractAccount" where
  "set_transaction_state h flags a = a\<lparr>tx_state := (tx_state a)(h \<mapsto> flags)\<rparr>"

definition set_transaction_label :: "string \<Rightarrow> string \<Rightarrow> AbstractAccount \<Rightarrow> AbstractAccount" where
  "set_transaction_label h text a = a\<lparr>tx_labels := (tx_labels a)(h \<mapsto> text)\<rparr>"

definition set_paid :: "PaymentRequest \<Rightarrow> string \<Rightarrow> AbstractAccount \<Rightarrow> AbstractAccount" where
  "set_paid pr tx_id a = a\<lparr>invoices_paid := (invoices_paid a)(pr_id pr \<mapsto> tx_id)\<rparr>"

text \<open>What the user is shown, what is logged, and the calls whose only effect is outside.\<close>

datatype event =
    ShowError string
  | ShowWarningInvalidLines "(nat \<times> string) list"
  | ShowMessage string
  | StatusBarMessage string
  | LoggerException string
  | ShowNamedDialog string
  | ShowTransaction Transaction "string option"
  | PasswordDialog "string list"
  | UntrustedMessageDialog string string exn
  | InvoiceListUpdate
  | InvoicesSave account_id
  | CpfpDialog int int rat
  | AccountCpfp account_id Transaction int

text \<open>
  The window. \<open>account\<close> is \<^verbatim>\<open>self._account\<close>, the id of the current account, and
  \<open>accounts\<close> the wallet's accounts by id: \<^verbatim>\<open>broadcast_transaction\<close> is handed an account
  of its own, which may or may not be the current one. \<open>amount_e\<close> is what
  \<^verbatim>\<open>amount_e.get_amount()\<close> returns, \<open>message_e\<close> the text of the description field.
\<close>

record ElectrumWindow =
  is_max :: bool
  not_enough_funds :: bool
  payment_request :: "PaymentRequest option"
  pay_from :: "UTXO list"
  amount_e :: "int option"
  message_e :: string
  payto_e :: PayToEdit
  config :: SimpleConfig
  account :: account_id
  accounts :: "account_id \<Rightarrow> AbstractAccount"
  trace :: "event list"

text \<open>
  The collaborators. \<open>StateDispatched\<close> and \<open>HasByteData\<close> are the two members of
  \<^verbatim>\<open>TxFlags\<close> the window uses; their values are declared in \<^verbatim>\<open>electrumsv.constants\<close>.
  \<open>password_dialog\<close> is the user: what is typed into the prompt showing the given lines
  (\<^verbatim>\<open>None\<close> when the prompt is cancelled).
\<close>

record collaborators =
  get_spendable_coins :: "AbstractAccount \<Rightarrow> SimpleConfig \<Rightarrow> bool \<Rightarrow> UTXO list"
  make_unsigned_transaction ::
    "AbstractAccount \<Rightarrow> UTXO list \<Rightarrow> XTxOutput list \<Rightarrow> SimpleConfig \<Rightarrow> int option \<Rightarrow> exn + Transaction"
  sign_transaction :: "AbstractAccount \<Rightarrow> Transaction \<Rightarrow> string \<Rightarrow> exn + Transaction"
  account_cpfp :: "AbstractAccount \<Rightarrow> Transaction \<Rightarrow> int \<Rightarrow> Transaction option"
  get_dummy_script :: "AbstractAccount \<Rightarrow> string"
  broadcast_transaction_and_wait :: "Transaction \<Rightarrow> exn + string"
  broadcast_failure_reason :: "exn \<Rightarrow> string"
  format_amount_and_units :: "int \<Rightarrow> string"
  password_dialog :: "string list \<Rightarrow> string option"
  StateDispatched :: int
  HasByteData :: int

definition emit :: "event \<Rightarrow> ElectrumWindow \<Rightarrow> ElectrumWindow" where
  "emit e w = w\<lparr>trace := trace w @ [e]\<rparr>"

definition upd_account ::
  "account_id \<Rightarrow> (AbstractAccount \<Rightarrow> AbstractAccount) \<Rightarrow> ElectrumWindow \<Rightarrow> ElectrumWindow" where
  "upd_account a f w = w\<lparr>accounts := (accounts w)(a := f (accounts w a))\<rparr>"

text \<open>The events a call added: the trace of the result without the trace it started from.\<close>

definition emitted :: "ElectrumWindow \<Rightarrow> ElectrumWindow \<Rightarrow> event list" where
  "emitted w w' = drop (length (trace w)) (trace w')"

definition str_exn :: "exn \<Rightarrow> string" where
  "str_exn e = (case e of Exception m \<Rightarrow> m | _ \<Rightarrow> [])"

subsection \<open>Coin selection and the send form\<close>

text \<open>
  \<^verbatim>\<open>
  def get_coins(self, account, isInvoice = False):
      if self.pay_from:
          return self.pay_from
      else:
          return account.get_spendable_coins(None, self.config, isInvoice)
  \<close>
\<close>

definition get_coins :: "collaborators \<Rightarrow> ElectrumWindow \<Rightarrow> account_id \<Rightarrow> bool \<Rightarrow> UTXO list" where
  "get_coins c w acct isInvoice =
     (if pay_from w \<noteq> [] then pay_from w
      else get_spendable_coins c (accounts w acct) (config w) isInvoice)"

text \<open>
  \<^verbatim>\<open>do_clear\<close> resets the send form: the three attributes and every edit field of the
  send tab, and the list of pinned coins.
\<close>

definition empty_payto :: PayToEdit where
  "empty_payto = \<lparr>get_errors = [], get_outputs = (\<lambda>m. []), get_payee_script = None\<rparr>"

definition do_clear :: "ElectrumWindow \<Rightarrow> ElectrumWindow" where
  "do_clear w =
     w\<lparr>is_max := False, not_enough_funds := False, payment_request := None,
       payto_e := empty_payto, amount_e := None, message_e := [], pay_from := []\<rparr>"

text \<open>The outputs \<^verbatim>\<open>do_update_fee\<close> hands to the builder once the amount is known.\<close>

definition fee_update_outputs :: "collaborators \<Rightarrow> ElectrumWindow \<Rightarrow> amount \<Rightarrow> XTxOutput list" where
  "fee_update_outputs c w amount =
     (let outputs = get_outputs (payto_e w) (is_max w) in
      if outputs = [] then
        (let output_script =
           (case get_payee_script (payto_e w) of
              None \<Rightarrow> get_dummy_script c (accounts w (account w))
            | Some s \<Rightarrow> s)
         in [\<lparr>tx_out_value = Some amount, script_pubkey = output_script\<rparr>])
      else outputs)"

definition fee_update_build :: "collaborators \<Rightarrow> ElectrumWindow \<Rightarrow> amount \<Rightarrow> exn + Transaction" where
  "fee_update_build c w amount =
     make_unsigned_transaction c (accounts w (account w)) (get_coins c w (account w) False)
       (fee_update_outputs c w amount) (config w) None"

text \<open>\<^verbatim>\<open>amount = all if self.is_max else self.amount_e.get_amount()\<close>\<close>

definition fee_update_amount :: "ElectrumWindow \<Rightarrow> amount option" where
  "fee_update_amount w = (if is_max w then Some PyAll else map_option Sat (amount_e w))"

text \<open>
  \<^verbatim>\<open>do_update_fee\<close>: with no amount the flag is reset and the status bar cleared.
  Otherwise the transaction is built: \<^verbatim>\<open>NotEnoughFunds\<close> sets the flag and returns,
  any other exception is logged and returns, and only after a successful build is the
  flag reset and, in maximum-send mode, the amount field set to the output value.
\<close>

definition do_update_fee :: "collaborators \<Rightarrow> ElectrumWindow \<Rightarrow> ElectrumWindow" where
  "do_update_fee c w =
     (let amount = fee_update_amount w in
      case amount of
        None \<Rightarrow> emit (StatusBarMessage []) (w\<lparr>not_enough_funds := False\<rparr>)
      | Some a \<Rightarrow>
          (case fee_update_build c w a of
             Inl NotEnoughFunds \<Rightarrow> w\<lparr>not_enough_funds := True\<rparr>
           | Inl e \<Rightarrow> emit (LoggerException ''transaction failure'') w
           | Inr tx \<Rightarrow>
               (let w1 = w\<lparr>not_enough_funds := False\<rparr> in
                if is_max w then w1\<lparr>amount_e := Some (output_value tx)\<rparr> else w1)))"

text \<open>
  The outputs \<^verbatim>\<open>read_send_tab\<close> reads: those of the attached payment request, else
  those of the pay-to field.
\<close>

definition send_tab_outputs :: "ElectrumWindow \<Rightarrow> XTxOutput list" where
  "send_tab_outputs w =
     (case payment_request w of
        Some pr \<Rightarrow> pr_get_outputs pr
      | None \<Rightarrow> get_outputs (payto_e w) (is_max w))"

text \<open>
  \<^verbatim>\<open>read_send_tab\<close> returns \<^verbatim>\<open>None\<close> (after a message box) when the payment request
  has expired, when the pay-to field has invalid lines, when there is no output, and
  when \<^verbatim>\<open>any(output.value is None for output in outputs)\<close>; else the tuple
  \<^verbatim>\<open>(outputs, fee, label, coins)\<close> with \<^verbatim>\<open>fee = None\<close>.
\<close>

definition read_send_tab ::
  "collaborators \<Rightarrow> ElectrumWindow \<Rightarrow>
     (XTxOutput list \<times> int option \<times> string \<times> UTXO list) option \<times> ElectrumWindow" where
  "read_send_tab c w =
     (if (case payment_request w of Some pr \<Rightarrow> has_expired pr | None \<Rightarrow> False)
      then (None, emit (ShowError ''Payment request has expired'') w)
      else
        (let label = message_e w;
             isInvoice = (payment_request w \<noteq> None);
             errors = (if isInvoice then [] else get_errors (payto_e w))
         in if errors \<noteq> [] then (None, emit (ShowWarningInvalidLines errors) w)
            else
              (let outputs = send_tab_outputs w in
               if outputs = [] then (None, emit (ShowError ''No outputs'') w)
               else if list_ex (\<lambda>output. tx_out_value output = None) outputs
               then (None, emit (ShowError ''Invalid Amount'') w)
               else (Some (outputs, None, label, get_coins c w (account w) isInvoice), w))))"

subsection \<open>Broadcasting\<close>

text \<open>
  \<^verbatim>\<open>broadcast_tx\<close> is the function run on the worker thread; its result, a returned value
  or a raised exception, is the future handed to \<^verbatim>\<open>on_done\<close>. With a payment request
  attached the transaction goes to the payee endpoint and the function ends in a bare
  \<^verbatim>\<open>return\<close>, whatever the endpoint answered: the locals \<^verbatim>\<open>status\<close> and \<^verbatim>\<open>msg\<close>
  (the latter assigned \<^verbatim>\<open>ack_msg\<close>) are never read. Without one it goes to the peer
  network and the returned id is the result. \<^verbatim>\<open>if pr:\<close> tests for an attached request
  (a request object is true, \<^verbatim>\<open>None\<close> is false).
\<close>

definition broadcast_tx ::
  "collaborators \<Rightarrow> account_id \<Rightarrow> Transaction \<Rightarrow> ElectrumWindow \<Rightarrow>
     (exn + string option) \<times> ElectrumWindow" where
  "broadcast_tx c acct tx w =
     (case payment_request w of
        Some pr \<Rightarrow>
          if has_expired pr
          then (Inl (Exception ''Payment request has expired''), w\<lparr>payment_request := None\<rparr>)
          else
            (case send_payment pr acct (raw tx) of
               Inl e \<Rightarrow> (Inl e, w)
             | Inr (ack_status, ack_msg) \<Rightarrow>
                 if ack_status
                 then (Inr None,
                       (emit (InvoicesSave (account w))
                          (upd_account (account w) (set_paid pr (txid tx)) w))
                         \<lparr>payment_request := None\<rparr>)
                 else (Inr None, w))
      | None \<Rightarrow>
          (case broadcast_transaction_and_wait c tx of
             Inl e \<Rightarrow> (Inl e, w)
           | Inr result \<Rightarrow>
               if result = txid tx \<and> have_transaction (accounts w acct) (hash tx)
               then (Inr (Some result),
                     upd_account acct
                       (set_transaction_state (hash tx) (StateDispatched c OR HasByteData c)) w)
               else (Inr (Some result), w)))"

text \<open>
  \<^verbatim>\<open>on_done\<close> runs on the GUI thread with the future. An exception opens the error
  dialog with the classified reason. Otherwise everything is under \<^verbatim>\<open>if tx_id:\<close>, which
  \<^verbatim>\<open>None\<close> and the empty string fail: the label, the success message, the refresh of the
  invoice list and \<^verbatim>\<open>do_clear\<close>.
\<close>

definition on_done ::
  "collaborators \<Rightarrow> Transaction \<Rightarrow> string option \<Rightarrow> string \<Rightarrow> exn + string option \<Rightarrow>
     ElectrumWindow \<Rightarrow> ElectrumWindow" where
  "on_done c tx tx_desc success_text future w =
     (case future of
        Inl exception \<Rightarrow>
          emit (UntrustedMessageDialog ''Transaction Broadcast Error''
                  (''Your transaction was not sent: '' @ broadcast_failure_reason c exception @ ''.'')
                  exception)
            (emit (LoggerException ''unhandled exception broadcasting transaction'') w)
      | Inr None \<Rightarrow> w
      | Inr (Some tx_id) \<Rightarrow>
          if tx_id = [] then w
          else
            (let w1 = (case tx_desc of
                         Some d \<Rightarrow>
                           if is_complete tx
                           then upd_account (account w) (set_transaction_label (hash tx) d) w
                           else w
                       | None \<Rightarrow> w);
                 w2 = emit (ShowMessage (success_text @ [CHR 0x0A] @ tx_id)) w1;
                 w3 = emit InvoiceListUpdate w2
             in do_clear w3))"

text \<open>
  \<^verbatim>\<open>broadcast_transaction\<close> hands both to a \<^verbatim>\<open>WaitingDialog\<close>, which runs
  \<^verbatim>\<open>broadcast_tx\<close> and then \<^verbatim>\<open>on_done\<close> with its future: one after the other.
\<close>

definition broadcast_transaction ::
  "collaborators \<Rightarrow> account_id \<Rightarrow> Transaction \<Rightarrow> string option \<Rightarrow> string option \<Rightarrow>
     ElectrumWindow \<Rightarrow> ElectrumWindow" where
  "broadcast_transaction c acct tx tx_desc success_text w =
     (let text = (case success_text of None \<Rightarrow> ''Payment sent.'' | Some s \<Rightarrow> s);
          (future, w1) = broadcast_tx c acct tx w
      in on_done c tx tx_desc text future w1)"

subsection \<open>Sending\<close>

text \<open>
  \<^verbatim>\<open>round(tx.estimated_size() * 0.5)\<close>: the product of an integer below \<open>2^53\<close> in
  absolute value and \<open>0.5\<close> is exact in double precision, and Python 3 rounds a float
  that lies halfway between two integers to the even one.
\<close>

definition round_half_size :: "int \<Rightarrow> int" where
  "round_half_size n =
     (if even n then n div 2 else if even (n div 2) then n div 2 else n div 2 + 1)"

definition low_fee_warning :: string where
  "low_fee_warning =
     ''Warning: The fee is less than 500 sats/kb.  It may take a very long time to confirm.''"

text \<open>The lines of the confirmation prompt.\<close>

definition confirm_msg :: "collaborators \<Rightarrow> int \<Rightarrow> Transaction \<Rightarrow> string list" where
  "confirm_msg c amount tx =
     (let fee = get_fee tx;
          msg = [''Amount to be sent: '' @ format_amount_and_units c amount,
                 ''Mining fee: '' @ format_amount_and_units c fee];
          msg = (if fee < round_half_size (estimated_size tx) then msg @ [low_fee_warning] else msg)
      in msg @ [[], ''Enter your password to proceed''])"

text \<open>
  \<^verbatim>\<open>sum(output.value for output in outputs)\<close>: the integers add up from 0; adding
  \<^verbatim>\<open>None\<close> or \<^verbatim>\<open>all\<close> to an integer raises \<^verbatim>\<open>TypeError\<close>.
\<close>

fun sum_values :: "int \<Rightarrow> XTxOutput list \<Rightarrow> exn + int" where
  "sum_values acc [] = Inr acc"
| "sum_values acc (output # outputs) =
     (case tx_out_value output of
        Some (Sat v) \<Rightarrow> sum_values (acc + v) outputs
      | _ \<Rightarrow> Inl TypeError)"

definition on_exception :: "exn \<Rightarrow> ElectrumWindow \<Rightarrow> ElectrumWindow" where
  "on_exception exception w =
     (if exception \<noteq> UserCancelled
      then emit (ShowError (str_exn exception)) (emit (LoggerException []) w)
      else w)"

text \<open>
  \<^verbatim>\<open>sign_tx_with_password\<close> signs on a worker thread and then calls the callback with the
  success code. Signing works on the transaction object in place; the callback is given
  the transaction as signing left it.
\<close>

definition sign_tx_with_password ::
  "collaborators \<Rightarrow> Transaction \<Rightarrow> (Transaction \<Rightarrow> bool \<Rightarrow> ElectrumWindow \<Rightarrow> ElectrumWindow) \<Rightarrow>
     string \<Rightarrow> ElectrumWindow \<Rightarrow> ElectrumWindow" where
  "sign_tx_with_password c tx callback password w =
     (case sign_transaction c (accounts w (account w)) tx password of
        Inl exc \<Rightarrow> callback tx False (on_exception exc w)
      | Inr tx' \<Rightarrow> callback tx' True w)"

definition sign_done ::
  "collaborators \<Rightarrow> string \<Rightarrow> Transaction \<Rightarrow> bool \<Rightarrow> ElectrumWindow \<Rightarrow> ElectrumWindow" where
  "sign_done c tx_desc tx success w =
     (if success then
        (if \<not> is_complete tx then do_clear (emit (ShowTransaction tx None) w)
         else broadcast_transaction c (account w) tx (Some tx_desc) None w)
      else w)"

text \<open>
  \<^verbatim>\<open>do_send\<close> from the confirmation prompt on: no password ends the send, a password
  starts signing.
\<close>

definition confirm_and_sign ::
  "collaborators \<Rightarrow> string \<Rightarrow> int \<Rightarrow> Transaction \<Rightarrow> ElectrumWindow \<Rightarrow> ElectrumWindow" where
  "confirm_and_sign c tx_desc amount tx w =
     (let msg = confirm_msg c amount tx;
          w1 = emit (PasswordDialog msg) w
      in case password_dialog c msg of
           None \<Rightarrow> w1
         | Some password \<Rightarrow>
             if password = [] then w1
             else sign_tx_with_password c tx (sign_done c tx_desc) password w1)"

text \<open>
  \<^verbatim>\<open>do_send\<close>. An exception the method does not catch (the \<^verbatim>\<open>TypeError\<close> of the sum)
  is the result \<open>Inl\<close>.
\<close>

definition do_send :: "collaborators \<Rightarrow> bool \<Rightarrow> ElectrumWindow \<Rightarrow> exn + ElectrumWindow" where
  "do_send c preview w =
     (case read_send_tab c (emit (ShowNamedDialog ''think-before-sending'') w) of
        (None, w1) \<Rightarrow> Inr w1
      | (Some (outputs, fee, tx_desc, coins), w1) \<Rightarrow>
          (case make_unsigned_transaction c (accounts w1 (account w1)) coins outputs (config w1) fee of
             Inl NotEnoughFunds \<Rightarrow> Inr (emit (ShowMessage ''Insufficient funds'') w1)
           | Inl ExcessiveFee \<Rightarrow>
               Inr (emit (ShowMessage ''Your fee is too high.  Max is 50 sat/byte.'') w1)
           | Inl e \<Rightarrow> Inr (emit (ShowMessage (str_exn e)) (emit (LoggerException []) w1))
           | Inr tx \<Rightarrow>
               (case (if is_max w1 then Inr (output_value tx) else sum_values 0 outputs) of
                  Inl e \<Rightarrow> Inl e
                | Inr amount \<Rightarrow>
                    if preview then Inr (emit (ShowTransaction tx (Some tx_desc)) w1)
                    else Inr (confirm_and_sign c tx_desc amount tx w1))))"

subsection \<open>Child pays for parent\<close>

text \<open>
  What the user did with the dialog: closed it (\<^verbatim>\<open>d.exec_()\<close> false), or accepted it
  with the fee field holding an amount or nothing (\<^verbatim>\<open>fee_e.get_amount()\<close>).
\<close>

datatype dialog_result = Rejected | Accepted "int option"

text \<open>
  \<^verbatim>\<open>fee = self.config.fee_per_kb() * total_size / 1000\<close>: the product of two integers,
  then Python's true division, kept here as the exact quotient.
\<close>

definition cpfp_proposed_fee :: "SimpleConfig \<Rightarrow> Transaction \<Rightarrow> Transaction \<Rightarrow> rat" where
  "cpfp_proposed_fee cfg parent_tx new_tx =
     (let total_size = estimated_size parent_tx + estimated_size new_tx
      in of_int (fee_per_kb cfg * total_size) / 1000)"

text \<open>
  \<^verbatim>\<open>cpfp\<close>: the dialog shows the total size, the input amount and the proposed fee. Once
  accepted, \<^verbatim>\<open>fee > max_fee\<close> is an error (and raises \<^verbatim>\<open>TypeError\<close> on an empty
  field); otherwise the account is asked for the child, \<^verbatim>\<open>None\<close> is an error, and the
  child it returns is shown with \<^verbatim>\<open>self.show_transaction(self._account, new_tx)\<close>.
\<close>

definition cpfp ::
  "collaborators \<Rightarrow> account_id \<Rightarrow> Transaction \<Rightarrow> Transaction \<Rightarrow> dialog_result \<Rightarrow>
     ElectrumWindow \<Rightarrow> exn + ElectrumWindow" where
  "cpfp c acct parent_tx new_tx d w =
     (let total_size = estimated_size parent_tx + estimated_size new_tx;
          max_fee = output_value new_tx;
          w1 = emit (CpfpDialog total_size max_fee (cpfp_proposed_fee (config w) parent_tx new_tx)) w
      in case d of
           Rejected \<Rightarrow> Inr w1
         | Accepted None \<Rightarrow> Inl TypeError
         | Accepted (Some fee) \<Rightarrow>
             if fee > max_fee then Inr (emit (ShowError ''Max fee exceeded'') w1)
             else
               (let w2 = emit (AccountCpfp acct parent_tx fee) w1 in
                case account_cpfp c (accounts w acct) parent_tx fee of
                  None \<Rightarrow> Inr (emit (ShowError ''CPFP no longer valid'') w2)
                | Some child \<Rightarrow> Inr (emit (ShowTransaction child None) w2)))"

subsection \<open>Example inputs\<close>

text \<open>
  A wallet with one account that tracks transaction \<open>h1\<close>, a pay-to field with one output
  of 50000 satoshis, and collaborators that build \<open>ex_tx\<close>, sign it, and accept it on the
  network. The flag values stand for the two \<^verbatim>\<open>TxFlags\<close> members.
\<close>

definition ex_config :: SimpleConfig where
  "ex_config = \<lparr>fee_per_kb = 500, max_fee_rate = 50000\<rparr>"

definition ex_tx :: Transaction where
  "ex_tx = \<lparr>txid = ''ab01'', hash = ''h1'', is_complete = True, estimated_size = 225,
            output_value = 99900, get_fee = 100, raw = ''0100''\<rparr>"

definition ex_boundary_tx :: Transaction where
  "ex_boundary_tx = ex_tx\<lparr>get_fee := 112\<rparr>"

definition ex_child :: Transaction where
  "ex_child = \<lparr>txid = ''cd02'', hash = ''h2'', is_complete = False, estimated_size = 108,
               output_value = 49000, get_fee = 0, raw = ''0200''\<rparr>"

definition ex_output :: XTxOutput where
  "ex_output = \<lparr>tx_out_value = Some (Sat 50000), script_pubkey = ''76a9''\<rparr>"

definition ex_unset_output :: XTxOutput where
  "ex_unset_output = \<lparr>tx_out_value = None, script_pubkey = ''76a9''\<rparr>"

definition ex_coin :: UTXO where
  "ex_coin = \<lparr>utxo_value = 100000, tx_hash = ''h0'', out_index = 0, address = ''addr''\<rparr>"

definition ex_pinned_coin :: UTXO where
  "ex_pinned_coin = \<lparr>utxo_value = 7000, tx_hash = ''h9'', out_index = 1, address = ''addr''\<rparr>"

definition ex_account :: AbstractAccount where
  "ex_account = \<lparr>tx_state = [''h1'' \<mapsto> 0], tx_labels = Map.empty, invoices_paid = Map.empty\<rparr>"

definition ex_payto :: PayToEdit where
  "ex_payto =
     \<lparr>get_errors = [], get_outputs = (\<lambda>m. [ex_output]), get_payee_script = Some ''76a9''\<rparr>"

definition ex_unset_payto :: PayToEdit where
  "ex_unset_payto =
     \<lparr>get_errors = [], get_outputs = (\<lambda>m. [ex_output, ex_unset_output]),
      get_payee_script = Some ''76a9''\<rparr>"

definition ex_collab :: collaborators where
  "ex_collab =
     \<lparr>get_spendable_coins = (\<lambda>a cfg inv. [ex_coin]),
      make_unsigned_transaction = (\<lambda>a coins outs cfg fee. Inr ex_tx),
      sign_transaction = (\<lambda>a tx pw. Inr tx),
      account_cpfp = (\<lambda>a tx fee. Some ex_child),
      get_dummy_script = (\<lambda>a. ''00''),
      broadcast_transaction_and_wait = (\<lambda>tx. Inr (txid tx)),
      broadcast_failure_reason = str_exn,
      format_amount_and_units = (\<lambda>n. ''sats''),
      password_dialog = (\<lambda>msg. Some ''pw''),
      StateDispatched = 16777216,
      HasByteData = 4096\<rparr>"

definition ex_boundary_collab :: collaborators where
  "ex_boundary_collab =
     ex_collab\<lparr>make_unsigned_transaction := (\<lambda>a coins outs cfg fee. Inr ex_boundary_tx),
               password_dialog := (\<lambda>msg. None)\<rparr>"

definition ex_poor_collab :: collaborators where
  "ex_poor_collab =
     ex_collab\<lparr>make_unsigned_transaction := (\<lambda>a coins outs cfg fee. Inl NotEnoughFunds)\<rparr>"

definition ex_window :: ElectrumWindow where
  "ex_window =
     \<lparr>is_max = False, not_enough_funds = False, payment_request = None, pay_from = [],
      amount_e = Some 50000, message_e = ''rent'', payto_e = ex_payto, config = ex_config,
      account = 0, accounts = (\<lambda>i. ex_account), trace = []\<rparr>"

definition ex_max_output :: XTxOutput where
  "ex_max_output = \<lparr>tx_out_value = Some PyAll, script_pubkey = ''76a9''\<rparr>"

definition ex_max_payto :: PayToEdit where
  "ex_max_payto =
     \<lparr>get_errors = [], get_outputs = (\<lambda>m. [ex_max_output]), get_payee_script = Some ''76a9''\<rparr>"

definition ex_max_window :: ElectrumWindow where
  "ex_max_window = ex_window\<lparr>is_max := True, payto_e := ex_max_payto\<rparr>"

definition ex_pr_nack :: PaymentRequest where
  "ex_pr_nack =
     \<lparr>pr_id = ''inv1'', has_expired = False, pr_get_outputs = [ex_output],
      send_payment = (\<lambda>a r. Inr (False, ''rejected''))\<rparr>"

definition ex_pr_ack :: PaymentRequest where
  "ex_pr_ack =
     \<lparr>pr_id = ''inv1'', has_expired = False, pr_get_outputs = [ex_output],
      send_payment = (\<lambda>a r. Inr (True, ''ok''))\<rparr>"

definition ex_pr_expired :: PaymentRequest where
  "ex_pr_expired =
     \<lparr>pr_id = ''inv1'', has_expired = True, pr_get_outputs = [ex_output],
      send_payment = (\<lambda>a r. Inr (True, ''ok''))\<rparr>"

section \<open>Properties\<close>

subsection \<open>Coin selection\<close>

text \<open>
  Claim C6. A non-empty list of pinned coins is returned as it is, whatever the
  collaborators, the configuration, the account and the invoice flag are; with no pinned
  coin the result is the account's spendable coins, asked for with the invoice flag.
\<close>

theorem get_coins_pinned:
  "(pay_from w \<noteq> [] \<longrightarrow>
      get_coins c w acct isInvoice = pay_from w \<and>
      get_coins c' (w\<lparr>config := cfg, accounts := accs\<rparr>) acct' isInvoice' = pay_from w)
   \<and> (pay_from w = [] \<longrightarrow>
      get_coins c w acct isInvoice = get_spendable_coins c (accounts w acct) (config w) isInvoice)"
  by (simp add: get_coins_def)

theorem get_coins_pinned_witness:
  "pay_from (ex_window\<lparr>pay_from := [ex_pinned_coin]\<rparr>) \<noteq> []
   \<and> get_coins ex_collab (ex_window\<lparr>pay_from := [ex_pinned_coin]\<rparr>) 0 True = [ex_pinned_coin]
   \<and> pay_from ex_window = []
   \<and> get_coins ex_collab ex_window 0 True = [ex_coin]"
proof -
  have pinned: "pay_from (ex_window\<lparr>pay_from := [ex_pinned_coin]\<rparr>) \<noteq> []"
    by simp
  have none: "pay_from ex_window = []"
    by (simp add: ex_window_def)
  from get_coins_pinned [of "ex_window\<lparr>pay_from := [ex_pinned_coin]\<rparr>" ex_collab 0 True] pinned
  have "get_coins ex_collab (ex_window\<lparr>pay_from := [ex_pinned_coin]\<rparr>) 0 True = [ex_pinned_coin]"
    by simp
  moreover from get_coins_pinned [of ex_window ex_collab 0 True] none
  have "get_coins ex_collab ex_window 0 True = [ex_coin]"
    by (simp add: ex_collab_def)
  ultimately show ?thesis using pinned none by simp
qed

subsection \<open>Reading the send form\<close>

lemma send_tab_outputs_emit: "send_tab_outputs (emit e w) = send_tab_outputs w"
  by (simp add: send_tab_outputs_def emit_def split: option.splits)

lemma read_send_tab_unset:
  assumes "\<exists>output \<in> set (send_tab_outputs w). tx_out_value output = None"
  shows "fst (read_send_tab c w) = None"
  using assms by (auto simp: read_send_tab_def Let_def list_ex_iff)

lemma read_send_tab_some:
  assumes "fst (read_send_tab c w) = Some (outputs, fee, label, coins)"
  shows "outputs = send_tab_outputs w \<and> (\<forall>output \<in> set outputs. tx_out_value output \<noteq> None)"
  using assms by (auto simp: read_send_tab_def Let_def list_ex_iff split: if_splits)

lemma do_send_nothing_read:
  assumes "fst (read_send_tab c (emit (ShowNamedDialog ''think-before-sending'') w)) = None"
  shows "do_send c preview w =
    Inr (snd (read_send_tab c (emit (ShowNamedDialog ''think-before-sending'') w)))"
  using assms
  by (cases "read_send_tab c (emit (ShowNamedDialog ''think-before-sending'') w)")
    (simp add: do_send_def)

lemma read_send_tab_reads:
  assumes "\<forall>pr. payment_request w = Some pr \<longrightarrow> \<not> has_expired pr"
    and "payment_request w = None \<longrightarrow> get_errors (payto_e w) = []"
    and "send_tab_outputs w \<noteq> []"
    and "\<forall>output \<in> set (send_tab_outputs w). tx_out_value output \<noteq> None"
  shows "read_send_tab c w =
    (Some (send_tab_outputs w, None, message_e w,
       get_coins c w (account w) (payment_request w \<noteq> None)), w)"
  using assms by (auto simp: read_send_tab_def Let_def list_ex_iff split: option.splits)

text \<open>
  Claim C7, as stated, fails: an integer value on every output is not required. In a
  maximum send the pay-to field's output carries the marker \<^verbatim>\<open>all\<close>, which is not
  \<^verbatim>\<open>None\<close> and not an integer; \<^verbatim>\<open>read_send_tab\<close> returns the tuple with that output,
  and \<^verbatim>\<open>do_send\<close> (here as a preview) has the transaction built from it and shows it.
\<close>

theorem read_send_tab_max_counterexample:
  "tx_out_value ex_max_output = Some PyAll
   \<and> send_tab_outputs ex_max_window = [ex_max_output]
   \<and> read_send_tab ex_collab ex_max_window =
       (Some ([ex_max_output], None, ''rent'', [ex_coin]), ex_max_window)
   \<and> do_send ex_collab True ex_max_window =
       Inr (ex_max_window\<lparr>trace :=
         [ShowNamedDialog ''think-before-sending'', ShowTransaction ex_tx (Some ''rent'')]\<rparr>)"
  by (simp add: do_send_def read_send_tab_def send_tab_outputs_def get_coins_def emit_def Let_def
      ex_max_window_def ex_max_payto_def ex_max_output_def ex_window_def ex_collab_def)

text \<open>
  Claim C7, amended. When an output of the list the form reads (the payment request's
  outputs, or the pay-to field's) has the value \<^verbatim>\<open>None\<close>, \<^verbatim>\<open>read_send_tab\<close> returns
  \<^verbatim>\<open>None\<close>, and \<^verbatim>\<open>do_send\<close> ends with what \<^verbatim>\<open>read_send_tab\<close> left, without asking
  the builder for a transaction. When \<^verbatim>\<open>read_send_tab\<close> does return a tuple, its outputs
  are the ones read and none of them has the value \<^verbatim>\<open>None\<close>. A value other than
  \<^verbatim>\<open>None\<close>, an integer or the marker \<^verbatim>\<open>all\<close>, is all the form asks of an output: with
  no expired request, no invalid line and at least one output, outputs without a
  \<^verbatim>\<open>None\<close> value are returned as read.
\<close>

theorem read_send_tab_unset_value:
  "((\<exists>output \<in> set (send_tab_outputs w). tx_out_value output = None) \<longrightarrow>
       fst (read_send_tab c w) = None \<and>
       do_send c preview w =
         Inr (snd (read_send_tab c (emit (ShowNamedDialog ''think-before-sending'') w))))
   \<and> (fst (read_send_tab c w) = Some (outputs, fee, label, coins) \<longrightarrow>
       outputs = send_tab_outputs w \<and> (\<forall>output \<in> set outputs. tx_out_value output \<noteq> None))
   \<and> ((\<forall>pr. payment_request w = Some pr \<longrightarrow> \<not> has_expired pr) \<and>
        (payment_request w = None \<longrightarrow> get_errors (payto_e w) = []) \<and>
        send_tab_outputs w \<noteq> [] \<and>
        (\<forall>output \<in> set (send_tab_outputs w). tx_out_value output \<noteq> None) \<longrightarrow>
       fst (read_send_tab c w) = Some (send_tab_outputs w, None, message_e w,
         get_coins c w (account w) (payment_request w \<noteq> None)))"
proof (intro conjI impI)
  assume unset: "\<exists>output \<in> set (send_tab_outputs w). tx_out_value output = None"
  then show "fst (read_send_tab c w) = None"
    by (rule read_send_tab_unset)
  from unset
  have "fst (read_send_tab c (emit (ShowNamedDialog ''think-before-sending'') w)) = None"
    by (intro read_send_tab_unset) (simp add: send_tab_outputs_emit)
  then show "do_send c preview w =
      Inr (snd (read_send_tab c (emit (ShowNamedDialog ''think-before-sending'') w)))"
    by (rule do_send_nothing_read)
next
  assume "fst (read_send_tab c w) = Some (outputs, fee, label, coins)"
  then show "outputs = send_tab_outputs w"
    and "\<forall>output \<in> set outputs. tx_out_value output \<noteq> None"
    using read_send_tab_some by blast+
next
  assume "(\<forall>pr. payment_request w = Some pr \<longrightarrow> \<not> has_expired pr) \<and>
      (payment_request w = None \<longrightarrow> get_errors (payto_e w) = []) \<and>
      send_tab_outputs w \<noteq> [] \<and>
      (\<forall>output \<in> set (send_tab_outputs w). tx_out_value output \<noteq> None)"
  then show "fst (read_send_tab c w) = Some (send_tab_outputs w, None, message_e w,
      get_coins c w (account w) (payment_request w \<noteq> None))"
    by (simp add: read_send_tab_reads)
qed

theorem read_send_tab_unset_value_witness:
  "ex_unset_output \<in> set (send_tab_outputs (ex_window\<lparr>payto_e := ex_unset_payto\<rparr>))
   \<and> tx_out_value ex_unset_output = None
   \<and> read_send_tab ex_collab (ex_window\<lparr>payto_e := ex_unset_payto\<rparr>) =
       (None, ex_window\<lparr>payto_e := ex_unset_payto, trace := [ShowError ''Invalid Amount'']\<rparr>)
   \<and> do_send ex_collab False (ex_window\<lparr>payto_e := ex_unset_payto\<rparr>) =
       Inr (ex_window\<lparr>payto_e := ex_unset_payto,
             trace := [ShowNamedDialog ''think-before-sending'', ShowError ''Invalid Amount'']\<rparr>)
   \<and> fst (read_send_tab ex_collab ex_window) = Some ([ex_output], None, ''rent'', [ex_coin])
   \<and> send_tab_outputs ex_window = [ex_output]
   \<and> tx_out_value ex_output = Some (Sat 50000)"
proof -
  have mem: "ex_unset_output \<in> set (send_tab_outputs (ex_window\<lparr>payto_e := ex_unset_payto\<rparr>))"
    by (simp add: send_tab_outputs_def ex_window_def ex_unset_payto_def)
  have unset: "tx_out_value ex_unset_output = None"
    by (simp add: ex_unset_output_def)
  have ok: "fst (read_send_tab ex_collab ex_window) = Some ([ex_output], None, ''rent'', [ex_coin])"
    by (simp add: read_send_tab_def send_tab_outputs_def get_coins_def ex_window_def ex_payto_def
        ex_output_def ex_collab_def Let_def)
  have rd: "read_send_tab ex_collab (emit e (ex_window\<lparr>payto_e := ex_unset_payto\<rparr>)) =
       (None, emit (ShowError ''Invalid Amount'') (emit e (ex_window\<lparr>payto_e := ex_unset_payto\<rparr>)))"
    for e
    by (simp add: read_send_tab_def send_tab_outputs_def emit_def ex_window_def
        ex_unset_payto_def ex_output_def ex_unset_output_def Let_def)
  have rd0: "read_send_tab ex_collab (ex_window\<lparr>payto_e := ex_unset_payto\<rparr>) =
       (None, emit (ShowError ''Invalid Amount'') (ex_window\<lparr>payto_e := ex_unset_payto\<rparr>))"
    by (simp add: read_send_tab_def send_tab_outputs_def emit_def ex_window_def
        ex_unset_payto_def ex_output_def ex_unset_output_def Let_def)
  note unset_case = read_send_tab_unset_value
    [of "ex_window\<lparr>payto_e := ex_unset_payto\<rparr>" ex_collab False]
  note set_case = read_send_tab_unset_value
    [of ex_window ex_collab False "[ex_output]" None "''rent''" "[ex_coin]"]
  from mem unset
  have "\<exists>output \<in> set (send_tab_outputs (ex_window\<lparr>payto_e := ex_unset_payto\<rparr>)).
      tx_out_value output = None"
    by blast
  with unset_case have
    "do_send ex_collab False (ex_window\<lparr>payto_e := ex_unset_payto\<rparr>) =
       Inr (snd (read_send_tab ex_collab
         (emit (ShowNamedDialog ''think-before-sending'')
            (ex_window\<lparr>payto_e := ex_unset_payto\<rparr>))))"
    by blast
  moreover from set_case ok have "[ex_output] = send_tab_outputs ex_window"
    by blast
  ultimately show ?thesis using mem unset ok rd rd0
    by (simp add: emit_def ex_window_def ex_output_def)
qed

subsection \<open>The fee update\<close>

text \<open>
  Claim C10. When \<^verbatim>\<open>do_update_fee\<close> has an amount and the build raises
  \<^verbatim>\<open>NotEnoughFunds\<close>, the window it leaves is the window it found with the
  not-enough-funds flag set: no other attribute changes and nothing is shown. The
  amount field is the same after every failed build, and in maximum-send mode a
  successful build sets it to the transaction's output value.
\<close>

theorem do_update_fee_not_enough_funds:
  assumes "fee_update_amount w = Some a"
  shows "(fee_update_build c w a = Inl NotEnoughFunds \<longrightarrow>
            do_update_fee c w = w\<lparr>not_enough_funds := True\<rparr>)
       \<and> (\<forall>e. fee_update_build c w a = Inl e \<longrightarrow> amount_e (do_update_fee c w) = amount_e w)
       \<and> (\<forall>tx. fee_update_build c w a = Inr tx \<and> is_max w \<longrightarrow>
            amount_e (do_update_fee c w) = Some (output_value tx))"
  using assms by (auto simp: do_update_fee_def emit_def Let_def split: exn.splits)

theorem do_update_fee_not_enough_funds_witness:
  "fee_update_amount (ex_window\<lparr>is_max := True\<rparr>) = Some PyAll
   \<and> fee_update_build ex_poor_collab (ex_window\<lparr>is_max := True\<rparr>) PyAll = Inl NotEnoughFunds
   \<and> do_update_fee ex_poor_collab (ex_window\<lparr>is_max := True\<rparr>) =
       ex_window\<lparr>is_max := True, not_enough_funds := True\<rparr>
   \<and> amount_e (do_update_fee ex_poor_collab (ex_window\<lparr>is_max := True\<rparr>)) = Some 50000
   \<and> fee_update_build ex_collab (ex_window\<lparr>is_max := True\<rparr>) PyAll = Inr ex_tx
   \<and> amount_e (do_update_fee ex_collab (ex_window\<lparr>is_max := True\<rparr>)) = Some 99900"
proof -
  have amt: "fee_update_amount (ex_window\<lparr>is_max := True\<rparr>) = Some PyAll"
    by (simp add: fee_update_amount_def)
  have poor: "fee_update_build ex_poor_collab (ex_window\<lparr>is_max := True\<rparr>) PyAll = Inl NotEnoughFunds"
    by (simp add: fee_update_build_def ex_poor_collab_def)
  have rich: "fee_update_build ex_collab (ex_window\<lparr>is_max := True\<rparr>) PyAll = Inr ex_tx"
    by (simp add: fee_update_build_def ex_collab_def)
  from do_update_fee_not_enough_funds [OF amt, of ex_poor_collab] poor
  have "do_update_fee ex_poor_collab (ex_window\<lparr>is_max := True\<rparr>) =
       ex_window\<lparr>is_max := True, not_enough_funds := True\<rparr>"
    by simp
  moreover from do_update_fee_not_enough_funds [OF amt, of ex_collab] rich
  have "amount_e (do_update_fee ex_collab (ex_window\<lparr>is_max := True\<rparr>)) = Some (output_value ex_tx)"
    by simp
  ultimately show ?thesis using amt poor rich
    by (simp add: ex_window_def ex_tx_def)
qed


subsection \<open>Broadcasting with a payment request attached\<close>

text \<open>
  Claim C3. With a payment request attached that has expired when \<^verbatim>\<open>broadcast_tx\<close>
  runs, the broadcast ends in the error dialog, whose text carries the reason classified
  from the exception \<^verbatim>\<open>Exception("Payment request has expired")\<close>, and the window's
  payment request is \<^verbatim>\<open>None\<close>; nothing else changes and nothing is submitted.
\<close>

theorem broadcast_expired_request:
  assumes "payment_request w = Some pr" and "has_expired pr"
  shows "broadcast_transaction c acct tx tx_desc success_text w =
     w\<lparr>payment_request := None,
       trace := trace w @
         [LoggerException ''unhandled exception broadcasting transaction'',
          UntrustedMessageDialog ''Transaction Broadcast Error''
            (''Your transaction was not sent: '' @
               broadcast_failure_reason c (Exception ''Payment request has expired'') @ ''.'')
            (Exception ''Payment request has expired'')]\<rparr>"
  using assms by (simp add: broadcast_transaction_def broadcast_tx_def on_done_def emit_def)

theorem broadcast_expired_request_witness:
  "payment_request (ex_window\<lparr>payment_request := Some ex_pr_expired\<rparr>) = Some ex_pr_expired
   \<and> has_expired ex_pr_expired
   \<and> broadcast_transaction ex_collab 0 ex_tx (Some ''rent'') None
        (ex_window\<lparr>payment_request := Some ex_pr_expired\<rparr>) =
      ex_window\<lparr>trace :=
         [LoggerException ''unhandled exception broadcasting transaction'',
          UntrustedMessageDialog ''Transaction Broadcast Error''
            ''Your transaction was not sent: Payment request has expired.''
            (Exception ''Payment request has expired'')]\<rparr>"
proof -
  have attached:
    "payment_request (ex_window\<lparr>payment_request := Some ex_pr_expired\<rparr>) = Some ex_pr_expired"
    by simp
  have expired: "has_expired ex_pr_expired"
    by (simp add: ex_pr_expired_def)
  from broadcast_expired_request [OF attached expired, of ex_collab 0 ex_tx "Some ''rent''" None]
  show ?thesis using attached expired
    by (simp add: ex_window_def ex_collab_def str_exn_def)
qed

text \<open>
  The payee endpoint refusing the payment leaves no mark at all: the broadcast returns
  the window it was given.
\<close>

lemma payee_refusal_no_report:
  assumes "payment_request w = Some pr" and "\<not> has_expired pr"
    and "send_payment pr acct (raw tx) = Inr (False, ack_msg)"
  shows "broadcast_transaction c acct tx tx_desc success_text w = w"
  using assms by (simp add: broadcast_transaction_def broadcast_tx_def on_done_def)

text \<open>
  Claim C1. The claim asks that a payment the payee endpoint does not acknowledge is
  reported to the caller as a failure. The code does not report it: with the request
  \<open>ex_pr_nack\<close> attached, whose endpoint answers \<^verbatim>\<open>(False, "rejected")\<close>, the broadcast
  returns the window unchanged; its trace holds no error dialog and no message, and
  \<^verbatim>\<open>ack_msg\<close> is dropped.
\<close>

theorem payee_refusal_completes_silently:
  "broadcast_transaction ex_collab 0 ex_tx (Some ''rent'') None
     (ex_window\<lparr>payment_request := Some ex_pr_nack\<rparr>) =
   ex_window\<lparr>payment_request := Some ex_pr_nack\<rparr>"
  by (simp add: broadcast_transaction_def broadcast_tx_def on_done_def ex_pr_nack_def)

subsection \<open>The label after an accepted broadcast\<close>

text \<open>
  On the peer network the label is recorded: \<^verbatim>\<open>on_done\<close>, given a non-empty
  transaction id, a description and a complete transaction, stores the description under
  the transaction's hash in the window's account.
\<close>

lemma on_done_records_label:
  assumes "tx_id \<noteq> []" and "is_complete tx"
  shows "tx_labels (accounts (on_done c tx (Some d) s (Inr (Some tx_id)) w) (account w)) (hash tx)
    = Some d"
  using assms
  by (simp add: on_done_def do_clear_def emit_def upd_account_def set_transaction_label_def Let_def)

text \<open>
  Claim C4. The claim asks that the description becomes the label after every accepted
  broadcast, acceptance by the payee endpoint included. There the code records no label:
  with the request \<open>ex_pr_ack\<close> attached, whose endpoint answers \<^verbatim>\<open>(True, "ok")\<close>, the
  description \<^verbatim>\<open>"rent"\<close> and the complete transaction \<open>ex_tx\<close>, the invoice is marked
  paid with the transaction's id, the only event is the saving of the invoices, and the
  account has no label for the transaction's hash.
\<close>

theorem payee_acceptance_records_no_label:
  "is_complete ex_tx
   \<and> invoices_paid (accounts (broadcast_transaction ex_collab 0 ex_tx (Some ''rent'') None
        (ex_window\<lparr>payment_request := Some ex_pr_ack\<rparr>)) 0) (pr_id ex_pr_ack) = Some (txid ex_tx)
   \<and> trace (broadcast_transaction ex_collab 0 ex_tx (Some ''rent'') None
        (ex_window\<lparr>payment_request := Some ex_pr_ack\<rparr>)) = [InvoicesSave 0]
   \<and> tx_labels (accounts (broadcast_transaction ex_collab 0 ex_tx (Some ''rent'') None
        (ex_window\<lparr>payment_request := Some ex_pr_ack\<rparr>)) 0) (hash ex_tx) = None"
  by (simp add: broadcast_transaction_def broadcast_tx_def on_done_def ex_pr_ack_def
      ex_window_def ex_account_def ex_tx_def emit_def upd_account_def set_paid_def)

subsection \<open>Broadcasting on the peer network\<close>

text \<open>
  Claim C5. With no payment request attached, a network that returns the transaction's
  own id and an account that tracks the transaction's hash, the broadcast leaves the
  flags stored for that hash at exactly \<^verbatim>\<open>StateDispatched | HasByteData\<close>, and a second
  broadcast of the same transaction leaves the account's flags as the first did.
\<close>

theorem broadcast_state_flags_idempotent:
  assumes "payment_request w = None"
    and "broadcast_transaction_and_wait c tx = Inr (txid tx)"
    and "have_transaction (accounts w acct) (hash tx)"
  shows "tx_state (accounts (broadcast_transaction c acct tx d1 s1 w) acct) (hash tx)
           = Some (StateDispatched c OR HasByteData c)
       \<and> tx_state (accounts (broadcast_transaction c acct tx d2 s2
             (broadcast_transaction c acct tx d1 s1 w)) acct)
           = tx_state (accounts (broadcast_transaction c acct tx d1 s1 w) acct)"
  using assms
  by (auto simp: broadcast_transaction_def broadcast_tx_def on_done_def emit_def do_clear_def
      upd_account_def set_transaction_state_def set_transaction_label_def have_transaction_def
      Let_def split: option.splits)

theorem broadcast_state_flags_idempotent_witness:
  "payment_request ex_window = None
   \<and> broadcast_transaction_and_wait ex_collab ex_tx = Inr (txid ex_tx)
   \<and> have_transaction (accounts ex_window 0) (hash ex_tx)
   \<and> tx_state (accounts ex_window 0) (hash ex_tx) = Some 0
   \<and> tx_state (accounts (broadcast_transaction ex_collab 0 ex_tx (Some ''rent'') None ex_window) 0)
        (hash ex_tx) = Some 16781312
   \<and> tx_state (accounts (broadcast_transaction ex_collab 0 ex_tx (Some ''rent'') None
        (broadcast_transaction ex_collab 0 ex_tx (Some ''rent'') None ex_window)) 0)
      = tx_state (accounts (broadcast_transaction ex_collab 0 ex_tx (Some ''rent'') None ex_window) 0)"
proof -
  have no_pr: "payment_request ex_window = None"
    by (simp add: ex_window_def)
  have accepted: "broadcast_transaction_and_wait ex_collab ex_tx = Inr (txid ex_tx)"
    by (simp add: ex_collab_def)
  have tracked: "have_transaction (accounts ex_window 0) (hash ex_tx)"
    by (simp add: have_transaction_def ex_window_def ex_account_def ex_tx_def)
  have before: "tx_state (accounts ex_window 0) (hash ex_tx) = Some 0"
    by (simp add: ex_window_def ex_account_def ex_tx_def)
  from broadcast_state_flags_idempotent [OF no_pr accepted tracked,
      where ?d1.0 = "Some ''rent''" and ?s1.0 = None and ?d2.0 = "Some ''rent''" and ?s2.0 = None]
  show ?thesis using no_pr accepted tracked before
    by (simp add: ex_collab_def)
qed


subsection \<open>The low-fee warning of the send flow\<close>

text \<open>
  When the fee is below the rounded half size: for an even size, when it is below half
  the size; for an odd size \<open>2k + 1\<close> the rounded half is \<open>k\<close> for even \<open>k\<close> and \<open>k + 1\<close>
  for odd \<open>k\<close>, and the fee \<open>k\<close>, which is below half the size, is below the rounded half
  only for odd \<open>k\<close>.
\<close>

lemma less_round_half_size:
  "(f < round_half_size n) = (2 * f < n \<and> \<not> (n mod 4 = 1 \<and> f = n div 2))"
  unfolding round_half_size_def by presburger

lemma warning_in_confirm_msg:
  "(low_fee_warning \<in> set (confirm_msg c amount tx)) =
     (get_fee tx < round_half_size (estimated_size tx))"
  by (simp add: confirm_msg_def low_fee_warning_def Let_def)

text \<open>
  Claim C8, as stated, fails: a fee strictly below half the estimated size does not always
  bring the warning. The built transaction \<open>ex_boundary_tx\<close> has an estimated size of 225
  bytes and a fee of 112 satoshis, below the half 112.5; \<^verbatim>\<open>round(225 * 0.5)\<close> is 112, the
  test \<^verbatim>\<open>112 < 112\<close> fails, and the prompt of \<^verbatim>\<open>do_send\<close> has no warning line.
\<close>

theorem low_fee_warning_counterexample:
  "2 * get_fee ex_boundary_tx < estimated_size ex_boundary_tx
   \<and> do_send ex_boundary_collab False ex_window =
       Inr (ex_window\<lparr>trace :=
         [ShowNamedDialog ''think-before-sending'',
          PasswordDialog
            [''Amount to be sent: sats'', ''Mining fee: sats'', [],
             ''Enter your password to proceed'']]\<rparr>)"
  by (simp add: do_send_def read_send_tab_def send_tab_outputs_def get_coins_def emit_def
      confirm_and_sign_def confirm_msg_def round_half_size_def Let_def
      ex_boundary_collab_def ex_collab_def ex_boundary_tx_def ex_tx_def ex_window_def
      ex_payto_def ex_output_def)

text \<open>
  Claim C8, amended. For a send that is not a preview, whose form was read and whose
  transaction was built (with an estimated size below \<open>2^53\<close>, where the float product is
  exact): \<^verbatim>\<open>do_send\<close> goes on to the confirmation prompt; the prompt has the warning line
  exactly when \<^verbatim>\<open>fee < round(estimated_size * 0.5)\<close>, Python rounding the half to the
  even integer, which is when the fee is strictly below half the size, the case of a size
  of the form \<open>4j + 1\<close> with the fee \<open>2j\<close> excepted; and with or without the warning, a
  non-empty password starts the signing.
\<close>

theorem do_send_low_fee_warning:
  assumes "read_send_tab c (emit (ShowNamedDialog ''think-before-sending'') w) =
             (Some (outputs, fee, tx_desc, coins), w1)"
    and "make_unsigned_transaction c (accounts w1 (account w1)) coins outputs (config w1) fee
           = Inr tx"
    and "(if is_max w1 then Inr (output_value tx) else sum_values 0 outputs) = Inr amount"
    and "\<bar>estimated_size tx\<bar> < 2 ^ 53"
  shows "do_send c False w = Inr (confirm_and_sign c tx_desc amount tx w1)
       \<and> (low_fee_warning \<in> set (confirm_msg c amount tx)) =
           (get_fee tx < round_half_size (estimated_size tx))
       \<and> (get_fee tx < round_half_size (estimated_size tx)) =
           (2 * get_fee tx < estimated_size tx \<and>
            \<not> (estimated_size tx mod 4 = 1 \<and> get_fee tx = estimated_size tx div 2))
       \<and> (\<forall>p. password_dialog c (confirm_msg c amount tx) = Some p \<and> p \<noteq> [] \<longrightarrow>
            confirm_and_sign c tx_desc amount tx w1 =
              sign_tx_with_password c tx (sign_done c tx_desc) p
                (emit (PasswordDialog (confirm_msg c amount tx)) w1))"
proof (intro conjI allI impI)
  show "do_send c False w = Inr (confirm_and_sign c tx_desc amount tx w1)"
    using assms(1,2,3) by (simp add: do_send_def)
  show "(low_fee_warning \<in> set (confirm_msg c amount tx)) =
      (get_fee tx < round_half_size (estimated_size tx))"
    by (rule warning_in_confirm_msg)
  show "(get_fee tx < round_half_size (estimated_size tx)) =
      (2 * get_fee tx < estimated_size tx \<and>
       \<not> (estimated_size tx mod 4 = 1 \<and> get_fee tx = estimated_size tx div 2))"
    by (rule less_round_half_size)
next
  fix p
  assume "password_dialog c (confirm_msg c amount tx) = Some p \<and> p \<noteq> []"
  then show "confirm_and_sign c tx_desc amount tx w1 =
      sign_tx_with_password c tx (sign_done c tx_desc) p
        (emit (PasswordDialog (confirm_msg c amount tx)) w1)"
    by (simp add: confirm_and_sign_def Let_def)
qed

theorem do_send_low_fee_warning_witness:
  "read_send_tab ex_collab (emit (ShowNamedDialog ''think-before-sending'') ex_window) =
     (Some ([ex_output], None, ''rent'', [ex_coin]),
      emit (ShowNamedDialog ''think-before-sending'') ex_window)
   \<and> make_unsigned_transaction ex_collab (accounts ex_window 0) [ex_coin] [ex_output] ex_config None
       = Inr ex_tx
   \<and> sum_values 0 [ex_output] = Inr 50000
   \<and> \<bar>estimated_size ex_tx\<bar> < 2 ^ 53
   \<and> get_fee ex_tx < round_half_size (estimated_size ex_tx)
   \<and> low_fee_warning \<in> set (confirm_msg ex_collab 50000 ex_tx)
   \<and> password_dialog ex_collab (confirm_msg ex_collab 50000 ex_tx) = Some ''pw''
   \<and> do_send ex_collab False ex_window =
       Inr (sign_tx_with_password ex_collab ex_tx (sign_done ex_collab ''rent'') ''pw''
         (emit (PasswordDialog (confirm_msg ex_collab 50000 ex_tx))
            (emit (ShowNamedDialog ''think-before-sending'') ex_window)))"
proof -
  let ?w1 = "emit (ShowNamedDialog ''think-before-sending'') ex_window"
  have rd: "read_send_tab ex_collab ?w1 = (Some ([ex_output], None, ''rent'', [ex_coin]), ?w1)"
    by (simp add: read_send_tab_def send_tab_outputs_def get_coins_def emit_def Let_def
        ex_window_def ex_payto_def ex_output_def ex_collab_def)
  have build: "make_unsigned_transaction ex_collab (accounts ?w1 (account ?w1)) [ex_coin]
      [ex_output] (config ?w1) None = Inr ex_tx"
    by (simp add: ex_collab_def)
  have amount: "(if is_max ?w1 then Inr (output_value ex_tx) else sum_values 0 [ex_output])
      = Inr 50000"
    by (simp add: emit_def ex_window_def ex_output_def)
  have size: "\<bar>estimated_size ex_tx\<bar> < 2 ^ 53"
    by (simp add: ex_tx_def)
  have pw: "password_dialog ex_collab (confirm_msg ex_collab 50000 ex_tx) = Some ''pw''"
    by (simp add: ex_collab_def)
  have low: "get_fee ex_tx < round_half_size (estimated_size ex_tx)"
    by (simp add: ex_tx_def round_half_size_def)
  note inst = do_send_low_fee_warning [OF rd build amount size]
  from inst low have "low_fee_warning \<in> set (confirm_msg ex_collab 50000 ex_tx)"
    by blast
  moreover from inst pw have "do_send ex_collab False ex_window =
      Inr (sign_tx_with_password ex_collab ex_tx (sign_done ex_collab ''rent'') ''pw''
        (emit (PasswordDialog (confirm_msg ex_collab 50000 ex_tx)) ?w1))"
    by simp
  ultimately show ?thesis using rd amount size pw low
    by (simp add: emit_def ex_window_def ex_collab_def ex_output_def)
qed

subsection \<open>Child pays for parent\<close>

text \<open>
  Claim C9. The fee \<^verbatim>\<open>cpfp\<close> proposes in its dialog is the configured fee per kilobyte
  times the sum of the two estimated sizes, divided by 1000 (as the exact quotient;
  Python's float is this number rounded to the nearest double).
\<close>

theorem cpfp_proposed_fee_value:
  assumes "cpfp c acct parent_tx new_tx d w = Inr w'"
  shows "take 1 (emitted w w') =
     [CpfpDialog (estimated_size parent_tx + estimated_size new_tx) (output_value new_tx)
        (of_int (fee_per_kb (config w)) *
           (of_int (estimated_size parent_tx) + of_int (estimated_size new_tx)) / 1000)]"
  using assms
  by (auto simp: cpfp_def cpfp_proposed_fee_def emitted_def emit_def Let_def
      split: option.splits dialog_result.splits if_splits)

theorem cpfp_proposed_fee_value_witness:
  "cpfp ex_collab 0 ex_tx ex_child Rejected ex_window =
     Inr (ex_window\<lparr>trace := [CpfpDialog 333 49000 (333 / 2)]\<rparr>)
   \<and> take 1 (emitted ex_window (ex_window\<lparr>trace := [CpfpDialog 333 49000 (333 / 2)]\<rparr>)) =
       [CpfpDialog 333 49000 (333 / 2)]
   \<and> fee_per_kb (config ex_window) = 500
   \<and> estimated_size ex_tx = 225 \<and> estimated_size ex_child = 108"
proof -
  have run: "cpfp ex_collab 0 ex_tx ex_child Rejected ex_window =
      Inr (ex_window\<lparr>trace := [CpfpDialog 333 49000 (333 / 2)]\<rparr>)"
    by (simp add: cpfp_def cpfp_proposed_fee_def emit_def Let_def ex_window_def ex_config_def
        ex_tx_def ex_child_def)
  from cpfp_proposed_fee_value [OF run]
  show ?thesis using run
    by (simp add: ex_window_def ex_config_def ex_tx_def ex_child_def)
qed

text \<open>
  Claim C2. Once the dialog is accepted with a fee entered, \<^verbatim>\<open>cpfp\<close> returns; it shows
  "Max fee exceeded" exactly when the fee is greater than the child's output value, and
  asks the account for the child exactly when the fee is at most that value, the fee
  equal to it included. A child the account then returns is shown, with no error
  message.
\<close>

theorem cpfp_fee_bound:
  "\<exists>w'. cpfp c acct parent_tx new_tx (Accepted (Some fee)) w = Inr w'
     \<and> (ShowError ''Max fee exceeded'' \<in> set (emitted w w')) = (output_value new_tx < fee)
     \<and> (AccountCpfp acct parent_tx fee \<in> set (emitted w w')) = (fee \<le> output_value new_tx)
     \<and> (\<forall>child. fee \<le> output_value new_tx \<and>
            account_cpfp c (accounts w acct) parent_tx fee = Some child \<longrightarrow>
          emitted w w' =
            [CpfpDialog (estimated_size parent_tx + estimated_size new_tx) (output_value new_tx)
               (cpfp_proposed_fee (config w) parent_tx new_tx),
             AccountCpfp acct parent_tx fee,
             ShowTransaction child None])"
  by (auto simp: cpfp_def emitted_def emit_def Let_def split: option.splits)

theorem cpfp_fee_bound_witness:
  "output_value ex_child = 49000
   \<and> cpfp ex_collab 0 ex_tx ex_child (Accepted (Some 49000)) ex_window =
       Inr (ex_window\<lparr>trace :=
         [CpfpDialog 333 49000 (333 / 2), AccountCpfp 0 ex_tx 49000,
          ShowTransaction ex_child None]\<rparr>)
   \<and> cpfp ex_collab 0 ex_tx ex_child (Accepted (Some 49001)) ex_window =
       Inr (ex_window\<lparr>trace := [CpfpDialog 333 49000 (333 / 2), ShowError ''Max fee exceeded'']\<rparr>)
   \<and> (\<exists>w'. cpfp ex_collab 0 ex_tx ex_child (Accepted (Some 49000)) ex_window = Inr w'
         \<and> AccountCpfp 0 ex_tx 49000 \<in> set (emitted ex_window w')
         \<and> ShowError ''Max fee exceeded'' \<notin> set (emitted ex_window w'))"
proof -
  have child: "output_value ex_child = 49000"
    by (simp add: ex_child_def)
  have at_bound: "cpfp ex_collab 0 ex_tx ex_child (Accepted (Some 49000)) ex_window =
      Inr (ex_window\<lparr>trace :=
        [CpfpDialog 333 49000 (333 / 2), AccountCpfp 0 ex_tx 49000,
         ShowTransaction ex_child None]\<rparr>)"
    by (simp add: cpfp_def cpfp_proposed_fee_def emit_def Let_def ex_window_def ex_config_def
        ex_tx_def ex_child_def ex_collab_def)
  have above: "cpfp ex_collab 0 ex_tx ex_child (Accepted (Some 49001)) ex_window =
      Inr (ex_window\<lparr>trace := [CpfpDialog 333 49000 (333 / 2), ShowError ''Max fee exceeded'']\<rparr>)"
    by (simp add: cpfp_def cpfp_proposed_fee_def emit_def Let_def ex_window_def ex_config_def
        ex_tx_def ex_child_def ex_collab_def)
  from cpfp_fee_bound [of ex_collab 0 ex_tx ex_child 49000 ex_window]
  obtain w' where
    "cpfp ex_collab 0 ex_tx ex_child (Accepted (Some 49000)) ex_window = Inr w'"
    "(ShowError ''Max fee exceeded'' \<in> set (emitted ex_window w')) = (output_value ex_child < 49000)"
    "(AccountCpfp 0 ex_tx 49000 \<in> set (emitted ex_window w')) = (49000 \<le> output_value ex_child)"
    by blast
  with child have "\<exists>w'. cpfp ex_collab 0 ex_tx ex_child (Accepted (Some 49000)) ex_window = Inr w'
      \<and> AccountCpfp 0 ex_tx 49000 \<in> set (emitted ex_window w')
      \<and> ShowError ''Max fee exceeded'' \<notin> set (emitted ex_window w')"
    by auto
  with child at_bound above show ?thesis
    by blast
qed


end
